theory Spec2Isabelle
  imports Complex_Main
begin

section \<open>Python values and exceptions\<close>

text \<open>
  The values that travel between the executor, \<^verbatim>\<open>json\<close> and the remote API: the
  dictionaries of a request (\<^verbatim>\<open>Dict[str, str]\<close>) and the response object, whose fields
  are read with \<^verbatim>\<open>chat_response['choices'][0]['message']\<close>. A dictionary is an
  association list; a lookup finds the first entry of a key.
\<close>

datatype pyval =
    PNone
  | PBool bool
  | PInt int
  | PStr string
  | PList "pyval list"
  | PDict "(string \<times> pyval) list"

type_synonym dict = "(string \<times> pyval) list"

text \<open>
  The exceptions of \<^verbatim>\<open>openai_executor.py\<close>. The two \<^verbatim>\<open>raise Exception(...)\<close> of
  \<^verbatim>\<open>execute_direct\<close> are \<open>PromptTooLong\<close>, which carries the four arguments of
  the \<^verbatim>\<open>format\<close> call in their order (message tokens, completion tokens, total
  tokens, available tokens), and \<open>UnsupportedFormat\<close>
  (\<^verbatim>\<open>'Functions are not supported in non-chat format'\<close>). The others are the exceptions
  Python raises on a subscript, and \<open>RemoteError\<close> is whatever the remote call raises.
\<close>

datatype error =
    PromptTooLong int int int int
  | UnsupportedFormat
  | IndexError
  | KeyError string
  | TypeError
  | ValueError
  | RemoteError string

text \<open>\<^verbatim>\<open>v[key]\<close> for a string key: only a dictionary has one.\<close>

fun getitem :: "pyval \<Rightarrow> string \<Rightarrow> error + pyval" where
  "getitem (PDict d) k = (case map_of d k of None \<Rightarrow> Inl (KeyError k) | Some v \<Rightarrow> Inr v)"
| "getitem _ k = Inl TypeError"

text \<open>\<^verbatim>\<open>v[0]\<close>: the first element of a list or of a string; a dictionary with string keys
  has no key \<^verbatim>\<open>0\<close>.\<close>

fun getitem0 :: "pyval \<Rightarrow> error + pyval" where
  "getitem0 (PList []) = Inl IndexError"
| "getitem0 (PList (x # xs)) = Inr x"
| "getitem0 (PStr []) = Inl IndexError"
| "getitem0 (PStr (c # cs)) = Inr (PStr [c])"
| "getitem0 (PDict d) = Inl (KeyError ''0'')"
| "getitem0 _ = Inl TypeError"

text \<open>\<^verbatim>\<open>len(d)\<close> of a dictionary: the number of its keys.\<close>

definition len_dict :: "dict \<Rightarrow> nat" where
  "len_dict d = length (remdups (map fst d))"

text \<open>A list comprehension over a function that may raise: the first exception wins.\<close>

fun comprehension :: "('a \<Rightarrow> error + 'b) \<Rightarrow> 'a list \<Rightarrow> error + 'b list" where
  "comprehension f [] = Inr []"
| "comprehension f (x # xs) =
     (case f x of
        Inl e \<Rightarrow> Inl e
      | Inr y \<Rightarrow> (case comprehension f xs of Inl e \<Rightarrow> Inl e | Inr ys \<Rightarrow> Inr (y # ys)))"

section \<open>The message model\<close>

text \<open>
  Modelled from the spec: the module \<^verbatim>\<open>objects\<close> (\<^verbatim>\<open>Content\<close>, \<^verbatim>\<open>Message\<close>,
  \<^verbatim>\<open>System\<close>, \<^verbatim>\<open>User\<close>, \<^verbatim>\<open>Assistant\<close>) is not among the sources. A message is "a
  tagged variant over roles {System, User, Assistant}, each carrying content"; an
  Assistant "additionally carries an error flag, the full context (the exact ordered list
  of messages that produced it) and a reference to the system message used". The
  arguments of \<open>Assistant\<close> are, in this order, \<^verbatim>\<open>message\<close>, \<^verbatim>\<open>error\<close>,
  \<^verbatim>\<open>messages_context\<close> and \<^verbatim>\<open>system_context\<close>; the executor's successful path leaves
  the flag and the system reference at their defaults, \<open>False\<close> and \<open>None\<close>.
\<close>

datatype content = Content string

datatype message =
    System (message: content)
  | User (message: content)
  | Assistant (message: content) bool "message list" "message option"

text \<open>Modelled from the spec: \<^verbatim>\<open>str(content)\<close>, the text of a content.\<close>

fun str_content :: "content \<Rightarrow> string" where
  "str_content (Content s) = s"

text \<open>Modelled from the spec: \<^verbatim>\<open>Message.role\<close>, the role discriminant as the remote API
  spells it.\<close>

fun role :: "message \<Rightarrow> string" where
  "role (System _) = ''system''"
| "role (User _) = ''user''"
| "role (Assistant _ _ _ _) = ''assistant''"

text \<open>Modelled from the spec: \<^verbatim>\<open>Message.to_dict\<close>, the request form
  \<^verbatim>\<open>{role, content}\<close> of a message.\<close>

definition to_dict :: "message \<Rightarrow> dict" where
  "to_dict m = [(''role'', PStr (role m)), (''content'', PStr (str_content (message m)))]"

text \<open>
  Modelled from the spec: \<^verbatim>\<open>Message.from_dict\<close>, the conversion of a dictionary
  "into internal Message Model instances". It reads \<^verbatim>\<open>message['role']\<close> and
  \<^verbatim>\<open>message['content']\<close>; a role outside the three of the model, or a content that is
  no text, has no message.
\<close>

definition from_dict :: "dict \<Rightarrow> error + message" where
  "from_dict d =
     (case getitem (PDict d) ''role'' of
        Inl e \<Rightarrow> Inl e
      | Inr r \<Rightarrow>
          (case getitem (PDict d) ''content'' of
             Inl e \<Rightarrow> Inl e
           | Inr c \<Rightarrow>
               (case (r, c) of
                  (PStr rs, PStr cs) \<Rightarrow>
                    if rs = ''user'' then Inr (User (Content cs))
                    else if rs = ''system'' then Inr (System (Content cs))
                    else if rs = ''assistant'' then Inr (Assistant (Content cs) False [] None)
                    else Inl ValueError
                | _ \<Rightarrow> Inl ValueError)))"

section \<open>The executor and what it talks to\<close>

text \<open>The attributes \<^verbatim>\<open>__init__\<close> sets, but for the cache, whose contents change: it is
  part of the world below.\<close>

record executor =
  openai_key :: string
  verbose :: bool
  model :: string
  max_function_calls :: int

text \<open>A remote request: the keyword arguments of \<^verbatim>\<open>openai.ChatCompletion.create\<close> or
  \<^verbatim>\<open>openai.Completion.create\<close>. \<open>rq_functions = None\<close> is a call without the
  \<^verbatim>\<open>functions\<close> keyword.\<close>

datatype endpoint = ChatCompletion | Completion

record request =
  rq_endpoint :: endpoint
  rq_model :: string
  rq_temperature :: real
  rq_max_tokens :: int
  rq_functions :: "dict list option"
  rq_messages :: "dict list"

text \<open>
  The libraries the executor calls, as parameters: \<^verbatim>\<open>tiktoken.encoding_for_model\<close>
  (\<open>None\<close> where it raises \<^verbatim>\<open>KeyError\<close>, for a model it does not know; otherwise the
  \<^verbatim>\<open>encode\<close> of the encoding), \<^verbatim>\<open>json.dumps\<close> on a list of dictionaries, and the
  remote service, whose answer to a request may depend on the requests made before it and
  is either an exception or the response object.
\<close>

record libs =
  encoding_for_model :: "string \<Rightarrow> (string \<Rightarrow> nat list) option"
  json_dumps :: "dict list \<Rightarrow> string"
  remote :: "request list \<Rightarrow> request \<Rightarrow> string + dict"

text \<open>
  Python's list objects. The caller's conversation and the list \<^verbatim>\<open>messages_list\<close> that
  \<^verbatim>\<open>execute\<close> fills with \<^verbatim>\<open>append\<close> are objects of one heap, named by their
  addresses; a new list takes the next free address.
\<close>

datatype pyobj = MessageList "message list" | DictList "dict list"

type_synonym ref = nat

definition deref :: "pyobj list \<Rightarrow> ref \<Rightarrow> pyobj option" where
  "deref h r = (if r < length h then Some (h ! r) else None)"

definition alloc :: "pyobj \<Rightarrow> pyobj list \<Rightarrow> ref \<times> pyobj list" where
  "alloc v h = (length h, h @ [v])"

text \<open>\<^verbatim>\<open>xs.append(d)\<close> on the list object at an address.\<close>

definition append_at :: "ref \<Rightarrow> dict \<Rightarrow> pyobj list \<Rightarrow> pyobj list" where
  "append_at r d h =
     (case deref h r of
        Some (DictList xs) \<Rightarrow> h[r := DictList (xs @ [d])]
      | _ \<Rightarrow> h)"

definition dicts_at :: "pyobj list \<Rightarrow> ref \<Rightarrow> dict list" where
  "dicts_at h r = (case deref h r of Some (DictList xs) \<Rightarrow> xs | _ \<Rightarrow> [])"

text \<open>
  Modelled from the spec: the class \<^verbatim>\<open>PersistentCache\<close> is not among the sources. It is
  "an external persisted key-value store with simple get/set/has-key operations", keyed
  by "the conversation's content and role sequence", so a map from conversations to the
  stored Assistant messages.
\<close>

type_synonym persistent_cache = "message list \<rightharpoonup> message"

definition has_key :: "persistent_cache \<Rightarrow> message list \<Rightarrow> bool" where
  "has_key c k = (c k \<noteq> None)"

definition get :: "persistent_cache \<Rightarrow> message list \<Rightarrow> message option" where
  "get c k = c k"

definition set_cache :: "persistent_cache \<Rightarrow> message list \<Rightarrow> message \<Rightarrow> persistent_cache" where
  "set_cache c k v = c(k \<mapsto> v)"

text \<open>
  Everything a call can change: the cache of the executor (\<open>None\<close> for an executor whose
  \<^verbatim>\<open>self.cache\<close> is false, the case both tests \<^verbatim>\<open>if self.cache\<close> guard against), the
  requests dispatched to the remote service so far, oldest first, and the heap.
\<close>

record world =
  cache :: "persistent_cache option"
  dispatched :: "request list"
  heap :: "pyobj list"

section \<open>Token budget\<close>

definition max_tokens :: "executor \<Rightarrow> int" where
  "max_tokens self =
     (if model self = ''gpt-3.5-turbo-16k-0613'' then 16385
      else if model self = ''gpt-3.5-turbo-16k'' then 16385
      else 4096)"

definition max_prompt_tokens :: "executor \<Rightarrow> int \<Rightarrow> int" where
  "max_prompt_tokens self completion_token_count =
     max_tokens self - completion_token_count - 256"

text \<open>
  The three shapes \<^verbatim>\<open>calculate_tokens\<close> accepts. An empty list is neither a list of
  \<^verbatim>\<open>Message\<close> nor a list of \<^verbatim>\<open>dict\<close> to the two \<^verbatim>\<open>isinstance\<close> tests and falls to
  the last branch, where \<^verbatim>\<open>str([])\<close> is \<^verbatim>\<open>'[]'\<close>.
\<close>

datatype token_input = Messages "message list" | Dicts "dict list" | Text string

definition calculate_tokens :: "libs \<Rightarrow> executor \<Rightarrow> token_input \<Rightarrow> string \<Rightarrow> error + int" where
  "calculate_tokens L self messages extra_str =
     (case encoding_for_model L (model self) of
        None \<Rightarrow> Inl (KeyError (model self))
      | Some encode \<Rightarrow>
          (case messages of
             Messages (m # ms) \<Rightarrow>
               Inr (int (length (encode (json_dumps L
                 (map to_dict (m # ms) @ [to_dict (User (Content extra_str))])))))
           | Dicts (d # ds) \<Rightarrow> Inr (int (length (encode (json_dumps L (d # ds)))))
           | Messages [] \<Rightarrow> Inr (int (length (encode (''[]'' @ extra_str))))
           | Dicts [] \<Rightarrow> Inr (int (length (encode (''[]'' @ extra_str))))
           | Text s \<Rightarrow> Inr (int (length (encode (s @ extra_str))))))"

section \<open>Dispatch\<close>

text \<open>A call of the remote service: the request joins the log, and an exception of the
  call propagates.\<close>

definition create :: "libs \<Rightarrow> world \<Rightarrow> request \<Rightarrow> (error + dict) \<times> world" where
  "create L w rq =
     ((case remote L (dispatched w) rq of Inl e \<Rightarrow> Inl (RemoteError e) | Inr response \<Rightarrow> Inr response),
      w\<lparr>dispatched := dispatched w @ [rq]\<rparr>)"

text \<open>
  \<^verbatim>\<open>execute_direct\<close>. Its list argument is only read, so the model takes the contents
  of the list at the time of the call. The defaults of the parameters \<^verbatim>\<open>functions\<close>
  and \<^verbatim>\<open>model\<close> are the two constants below; \<^verbatim>\<open>mdl\<close> is the parameter
  \<^verbatim>\<open>model\<close>, which is not \<^verbatim>\<open>self.model\<close>.
\<close>

definition default_functions :: "dict list" where
  "default_functions = []"

definition default_model :: string where
  "default_model = ''gpt-3.5-turbo-16k-0613''"

definition execute_direct ::
  "libs \<Rightarrow> executor \<Rightarrow> world \<Rightarrow> dict list \<Rightarrow> dict list \<Rightarrow> string \<Rightarrow> int \<Rightarrow> real \<Rightarrow> bool
    \<Rightarrow> (error + dict) \<times> world" where
  "execute_direct L self w messages functions mdl max_completion_tokens temperature chat_format =
     (case calculate_tokens L self (Dicts messages) [] of
        Inl e \<Rightarrow> (Inl e, w)
      | Inr message_tokens \<Rightarrow>
          if message_tokens > max_prompt_tokens self max_completion_tokens then
            (Inl (PromptTooLong message_tokens max_completion_tokens
                    (message_tokens + max_completion_tokens) (max_tokens self)), w)
          else if \<not> chat_format \<and> length functions > 0 then (Inl UnsupportedFormat, w)
          else if chat_format then
            (if functions \<noteq> [] then
               create L w \<lparr>rq_endpoint = ChatCompletion, rq_model = mdl,
                 rq_temperature = temperature, rq_max_tokens = max_completion_tokens,
                 rq_functions = Some functions, rq_messages = messages\<rparr>
             else
               create L w \<lparr>rq_endpoint = ChatCompletion, rq_model = mdl,
                 rq_temperature = temperature, rq_max_tokens = max_completion_tokens,
                 rq_functions = None, rq_messages = messages\<rparr>)
          else
            create L w \<lparr>rq_endpoint = Completion, rq_model = mdl,
              rq_temperature = temperature, rq_max_tokens = max_completion_tokens,
              rq_functions = None, rq_messages = messages\<rparr>)"

section \<open>execute\<close>

text \<open>The local function \<^verbatim>\<open>last\<close> of \<^verbatim>\<open>execute\<close>.\<close>

definition last_pred :: "('a \<Rightarrow> bool) \<Rightarrow> 'a list \<Rightarrow> 'a option" where
  "last_pred predicate iterable =
     (let result = filter predicate iterable
      in if result \<noteq> [] then Some (last result) else None)"

text \<open>\<^verbatim>\<open>self.cache and self.cache.has_key(messages)\<close>, and then
  \<^verbatim>\<open>self.cache.get(messages)\<close>.\<close>

definition cached :: "persistent_cache option \<Rightarrow> message list \<Rightarrow> message option" where
  "cached co messages =
     (case co of
        None \<Rightarrow> None
      | Some c \<Rightarrow> if has_key c messages then get c messages else None)"

text \<open>\<^verbatim>\<open>if self.cache: self.cache.set(messages, assistant)\<close>.\<close>

definition store :: "world \<Rightarrow> message list \<Rightarrow> message \<Rightarrow> world" where
  "store w messages assistant =
     (case cache w of
        None \<Rightarrow> w
      | Some c \<Rightarrow> w\<lparr>cache := Some (set_cache c messages assistant)\<rparr>)"

text \<open>Lines 123 to 127: the system message of the conversation, or the default one.\<close>

definition find_system_message :: "message list \<Rightarrow> message" where
  "find_system_message messages =
     (case last_pred (\<lambda>x. role x = ''system'') messages of
        None \<Rightarrow> System (Content ''You are a helpful assistant.'')
      | Some system_message \<Rightarrow> system_message)"

text \<open>Lines 132 to 137: the fresh list \<^verbatim>\<open>messages_list\<close> and the appends that fill
  it.\<close>

definition build_messages_list :: "message \<Rightarrow> message list \<Rightarrow> pyobj list \<Rightarrow> ref \<times> pyobj list" where
  "build_messages_list system_message messages h =
     (let (messages_list, h1) = alloc (DictList []) h;
          h2 = append_at messages_list (to_dict system_message) h1;
          h3 = fold (\<lambda>m. append_at messages_list (to_dict m))
                 (filter (\<lambda>m. role m \<noteq> ''system'') messages) h2
      in (messages_list, h3))"

text \<open>\<^verbatim>\<open>chat_response['choices'][0]['message']\<close>.\<close>

definition first_choice_message :: "dict \<Rightarrow> error + pyval" where
  "first_choice_message chat_response =
     (case getitem (PDict chat_response) ''choices'' of
        Inl e \<Rightarrow> Inl e
      | Inr choices \<Rightarrow>
          (case getitem0 choices of
             Inl e \<Rightarrow> Inl e
           | Inr choice \<Rightarrow> getitem choice ''message''))"

text \<open>
  Lines 147 to 165: what \<^verbatim>\<open>execute\<close> makes of the response. A message of the response
  that is no dictionary is appended all the same in Python, and \<^verbatim>\<open>Message.from_dict\<close>
  then raises \<^verbatim>\<open>TypeError\<close> on its subscript, after the conversions of the entries
  before it, which cannot fail; the model raises it at once, and leaves the appended
  value, which nothing can reach after the exception, out of the heap.
\<close>

definition handle_response ::
  "world \<Rightarrow> message list \<Rightarrow> message \<Rightarrow> ref \<Rightarrow> dict \<Rightarrow> (error + message) \<times> world" where
  "handle_response w messages system_message messages_list chat_response =
     (if len_dict chat_response = 0 then
        (case comprehension from_dict (dicts_at (heap w) messages_list) of
           Inl e \<Rightarrow> (Inl e, w)
         | Inr messages_context \<Rightarrow>
             (Inr (Assistant (Content ''The model could not execute the query.'') True
                     messages_context (Some system_message)), w))
      else
        (case first_choice_message chat_response of
           Inl e \<Rightarrow> (Inl e, w)
         | Inr (PDict d) \<Rightarrow>
             (let w1 = w\<lparr>heap := append_at messages_list d (heap w)\<rparr>
              in case comprehension from_dict (dicts_at (heap w1) messages_list) of
                   Inl e \<Rightarrow> (Inl e, w1)
                 | Inr conversation \<Rightarrow>
                     (case conversation of
                        [] \<Rightarrow> (Inl IndexError, w1)
                      | _ \<Rightarrow>
                          (let assistant = Assistant (message (last conversation)) False conversation None
                           in (Inr assistant, store w1 messages assistant))))
         | Inr _ \<Rightarrow> (Inl TypeError, w)))"

text \<open>
  \<^verbatim>\<open>execute\<close>. The argument is the address of the caller's list. On a miss of the
  cache, \<^verbatim>\<open>messages[-1]\<close> in the first \<^verbatim>\<open>logging.debug\<close> raises \<^verbatim>\<open>IndexError\<close>
  on an empty conversation, before the list for the request is built. An address that
  holds no list of messages is outside the type of the parameter.
\<close>

definition execute :: "libs \<Rightarrow> executor \<Rightarrow> world \<Rightarrow> ref \<Rightarrow> real \<Rightarrow> int \<Rightarrow> (error + message) \<times> world" where
  "execute L self w messages temperature max_completion_tokens =
     (case deref (heap w) messages of
        Some (MessageList msgs) \<Rightarrow>
          (case cached (cache w) msgs of
             Some assistant \<Rightarrow> (Inr assistant, w)
           | None \<Rightarrow>
               (let system_message = find_system_message msgs
                in if msgs = [] then (Inl IndexError, w)
                   else
                     (let (messages_list, h) = build_messages_list system_message msgs (heap w);
                          w1 = w\<lparr>heap := h\<rparr>
                      in case execute_direct L self w1 (dicts_at h messages_list) default_functions
                                default_model max_completion_tokens temperature True of
                           (Inl e, w2) \<Rightarrow> (Inl e, w2)
                         | (Inr chat_response, w2) \<Rightarrow>
                             handle_response w2 msgs system_message messages_list chat_response)))
      | _ \<Rightarrow> (Inl TypeError, w))"

section \<open>A concrete setting\<close>

text \<open>
  Stand-ins for the libraries, to run the definitions on: an encoding with one token for
  each character, a serialisation that writes the keys and the texts of the dictionaries
  one after the other, and a remote service that answers every request with one choice.
\<close>

definition example_libs :: libs where
  "example_libs =
     \<lparr>encoding_for_model = (\<lambda>m. Some (map (\<lambda>c. 0))),
      json_dumps = (\<lambda>ds. concat (map (\<lambda>d. concat (map (\<lambda>(k, v). k @ (case v of PStr s \<Rightarrow> s | _ \<Rightarrow> [])) d)) ds)),
      remote = (\<lambda>log rq.
        Inr [(''choices'', PList [PDict [(''message'',
               PDict [(''role'', PStr ''assistant''), (''content'', PStr ''4'')])]])])\<rparr>"

definition example_self :: executor where
  "example_self =
     \<lparr>openai_key = ''key'', verbose = True, model = ''gpt-3.5-turbo-16k-0613'',
      max_function_calls = 5\<rparr>"

text \<open>The conversation of the spec's example, at address 0, with an empty cache.\<close>

definition example_world :: world where
  "example_world =
     \<lparr>cache = Some Map.empty, dispatched = [],
      heap = [MessageList [User (Content ''What is 2+2?'')]]\<rparr>"

text \<open>An executor configured with another model, a conversation with two system
  messages, and two more remote services: one whose response object has fields but no
  choice, one whose response object is empty.\<close>

definition gpt4_self :: executor where
  "gpt4_self = example_self\<lparr>model := ''gpt-4''\<rparr>"

definition two_systems_world :: world where
  "two_systems_world =
     \<lparr>cache = Some Map.empty, dispatched = [],
      heap = [MessageList [System (Content ''A''), User (Content ''q''), System (Content ''B''),
                           User (Content ''r'')]]\<rparr>"

text \<open>The empty conversation, at address 0, with an empty cache.\<close>

definition empty_conversation_world :: world where
  "empty_conversation_world =
     \<lparr>cache = Some Map.empty, dispatched = [], heap = [MessageList []]\<rparr>"

definition zero_choices_libs :: libs where
  "zero_choices_libs =
     example_libs\<lparr>remote := (\<lambda>log rq. Inr [(''id'', PStr ''x''), (''choices'', PList [])])\<rparr>"

definition empty_response_libs :: libs where
  "empty_response_libs = example_libs\<lparr>remote := (\<lambda>log rq. Inr [])\<rparr>"

text \<open>Notation for the proofs: the contents \<^verbatim>\<open>messages_list\<close> has after lines 135 to 137,
  and the request \<^verbatim>\<open>execute\<close> has \<^verbatim>\<open>execute_direct\<close> make of it.\<close>

abbreviation outgoing :: "message list \<Rightarrow> dict list" where
  "outgoing msgs \<equiv>
     to_dict (find_system_message msgs) # map to_dict (filter (\<lambda>m. role m \<noteq> ''system'') msgs)"

abbreviation chat_request :: "message list \<Rightarrow> real \<Rightarrow> int \<Rightarrow> request" where
  "chat_request msgs t n \<equiv>
     \<lparr>rq_endpoint = ChatCompletion, rq_model = default_model, rq_temperature = t,
      rq_max_tokens = n, rq_functions = None, rq_messages = outgoing msgs\<rparr>"

section \<open>The heap\<close>

lemma append_at_fresh: "append_at (length h) d (h @ [DictList xs]) = h @ [DictList (xs @ [d])]"
  by (simp add: append_at_def deref_def)

lemma fold_append_at_fresh:
  "fold (\<lambda>m. append_at (length h) (f m)) ms (h @ [DictList xs]) = h @ [DictList (xs @ map f ms)]"
  by (induction ms arbitrary: xs) (simp_all add: append_at_fresh)

lemma build_messages_list_eq:
  "build_messages_list s msgs h =
     (length h, h @ [DictList (to_dict s # map to_dict (filter (\<lambda>m. role m \<noteq> ''system'') msgs))])"
  using fold_append_at_fresh [of h to_dict _ "[to_dict s]"] append_at_fresh [of h "to_dict s" "[]"]
  by (simp add: build_messages_list_def alloc_def)

lemma dicts_at_fresh: "dicts_at (h @ [DictList xs]) (length h) = xs"
  by (simp add: dicts_at_def deref_def)

section \<open>Messages and dictionaries\<close>

lemma map_of_role_to_dict: "map_of (to_dict m) ''role'' = Some (PStr (role m))"
  by (simp add: to_dict_def)

lemma no_system_among_others:
  "filter (\<lambda>d. getitem (PDict d) ''role'' = Inr (PStr ''system''))
     (map to_dict (filter (\<lambda>m. role m \<noteq> ''system'') msgs)) = []"
  by (induction msgs) (simp_all add: map_of_role_to_dict)

lemma find_system_message_eq:
  "find_system_message msgs =
     (if filter (\<lambda>m. role m = ''system'') msgs = []
      then System (Content ''You are a helpful assistant.'')
      else last (filter (\<lambda>m. role m = ''system'') msgs))"
  by (simp add: find_system_message_def last_pred_def)

lemma role_find_system_message: "role (find_system_message msgs) = ''system''"
proof (cases "filter (\<lambda>x. role x = ''system'') msgs = []")
  case True
  then show ?thesis by (simp add: find_system_message_eq)
next
  case False
  then have "last (filter (\<lambda>x. role x = ''system'') msgs) \<in> set (filter (\<lambda>x. role x = ''system'') msgs)"
    by (rule last_in_set)
  then show ?thesis using False by (simp add: find_system_message_eq)
qed

lemma from_dict_to_dict:
  "\<exists>m'. from_dict (to_dict m) = Inr m' \<and> to_dict m' = to_dict m"
  by (cases m) (simp_all add: from_dict_def to_dict_def)

lemma comprehension_from_dict_to_dict:
  "\<exists>ctx. comprehension from_dict (map to_dict ms) = Inr ctx \<and> map to_dict ctx = map to_dict ms"
proof (induction ms)
  case Nil
  show ?case by simp
next
  case (Cons m ms)
  obtain m' where m': "from_dict (to_dict m) = Inr m'" "to_dict m' = to_dict m"
    using from_dict_to_dict by blast
  from Cons obtain ctx where ctx: "comprehension from_dict (map to_dict ms) = Inr ctx"
    "map to_dict ctx = map to_dict ms" by blast
  show ?case using m' ctx by simp
qed

section \<open>The paths of execute\<close>

lemma execute_direct_chat_plain:
  "execute_direct L self w ms [] mdl n t True =
     (case calculate_tokens L self (Dicts ms) [] of
        Inl e \<Rightarrow> (Inl e, w)
      | Inr k \<Rightarrow>
          if k > max_prompt_tokens self n
          then (Inl (PromptTooLong k n (k + n) (max_tokens self)), w)
          else ((case remote L (dispatched w) \<lparr>rq_endpoint = ChatCompletion, rq_model = mdl,
                 rq_temperature = t, rq_max_tokens = n, rq_functions = None, rq_messages = ms\<rparr> of
                   Inl e \<Rightarrow> Inl (RemoteError e) | Inr response \<Rightarrow> Inr response),
                w\<lparr>dispatched := dispatched w @ [\<lparr>rq_endpoint = ChatCompletion, rq_model = mdl,
                 rq_temperature = t, rq_max_tokens = n, rq_functions = None, rq_messages = ms\<rparr>]\<rparr>))"
  by (simp add: execute_direct_def create_def split: sum.splits)

lemma execute_not_a_conversation:
  "(\<And>msgs. deref (heap w) r \<noteq> Some (MessageList msgs)) \<Longrightarrow>
   execute L self w r t n = (Inl TypeError, w)"
  by (simp add: execute_def split: option.splits pyobj.splits)

lemma execute_hit:
  "deref (heap w) r = Some (MessageList msgs) \<Longrightarrow> cached (cache w) msgs = Some a \<Longrightarrow>
   execute L self w r t n = (Inr a, w)"
  by (simp add: execute_def)

lemma execute_empty:
  "deref (heap w) r = Some (MessageList []) \<Longrightarrow> cached (cache w) [] = None \<Longrightarrow>
   execute L self w r t n = (Inl IndexError, w)"
  by (simp add: execute_def)

lemma execute_miss:
  assumes "deref (heap w) r = Some (MessageList msgs)" and "cached (cache w) msgs = None"
    and "msgs \<noteq> []"
  shows "execute L self w r t n =
     (case calculate_tokens L self (Dicts (outgoing msgs)) [] of
        Inl e \<Rightarrow> (Inl e, w\<lparr>heap := heap w @ [DictList (outgoing msgs)]\<rparr>)
      | Inr k \<Rightarrow>
          if k > max_prompt_tokens self n
          then (Inl (PromptTooLong k n (k + n) (max_tokens self)),
                w\<lparr>heap := heap w @ [DictList (outgoing msgs)]\<rparr>)
          else (case remote L (dispatched w) (chat_request msgs t n) of
                  Inl e \<Rightarrow> (Inl (RemoteError e),
                     w\<lparr>heap := heap w @ [DictList (outgoing msgs)],
                       dispatched := dispatched w @ [chat_request msgs t n]\<rparr>)
                | Inr response \<Rightarrow>
                    handle_response (w\<lparr>heap := heap w @ [DictList (outgoing msgs)],
                       dispatched := dispatched w @ [chat_request msgs t n]\<rparr>)
                      msgs (find_system_message msgs) (length (heap w)) response))"
  using assms
  by (simp add: execute_def build_messages_list_eq dicts_at_fresh execute_direct_chat_plain
      default_functions_def Let_def split: sum.splits)

lemma store_frame: "dispatched (store w k v) = dispatched w" "heap (store w k v) = heap w"
  by (simp_all add: store_def split: option.splits)

lemma handle_response_dispatched:
  "dispatched (snd (handle_response w msgs s ml resp)) = dispatched w"
  by (simp add: handle_response_def store_frame Let_def
      split: sum.splits pyval.splits list.splits)

lemma handle_response_heap_grows:
  assumes "heap w = h @ [DictList xs]"
  shows "\<exists>ys. heap (snd (handle_response w msgs s (length h) resp)) = h @ [DictList (xs @ ys)]"
  using assms
  by (simp add: handle_response_def store_frame Let_def append_at_fresh
      split: sum.splits pyval.splits list.splits)

lemma handle_response_empty:
  assumes "len_dict resp = 0" and "dicts_at (heap w) ml = map to_dict ms"
  shows "\<exists>ctx. handle_response w msgs s ml resp =
            (Inr (Assistant (Content ''The model could not execute the query.'') True ctx (Some s)), w)
          \<and> comprehension from_dict (map to_dict ms) = Inr ctx \<and> map to_dict ctx = map to_dict ms"
  using assms comprehension_from_dict_to_dict [of ms]
  by (auto simp add: handle_response_def)

lemma handle_response_success:
  assumes "handle_response w msgs s ml resp = (Inr (Assistant a False ctx sc), w')"
    and "cache w = Some c"
  shows "cache w' = Some (c(msgs \<mapsto> Assistant a False ctx sc))"
  using assms
  by (auto simp add: handle_response_def store_def set_cache_def Let_def
      split: if_splits sum.splits pyval.splits list.splits)

lemma execute_dispatched_cases:
  assumes "deref (heap w) r = Some (MessageList msgs)"
  shows "dispatched (snd (execute L self w r t n)) = dispatched w \<or>
         (cached (cache w) msgs = None \<and> msgs \<noteq> [] \<and>
          dispatched (snd (execute L self w r t n)) = dispatched w @ [chat_request msgs t n])"
proof (cases "cached (cache w) msgs")
  case (Some a)
  then show ?thesis using assms by (simp add: execute_hit)
next
  case None
  show ?thesis
  proof (cases "msgs = []")
    case True
    then show ?thesis using assms None by (simp add: execute_empty)
  next
    case False
    show ?thesis
      using None False
      by (simp add: execute_miss [OF assms None False] handle_response_dispatched
          split: sum.splits)
  qed
qed

lemma execute_dispatched_request:
  assumes "dispatched (snd (execute L self w r t n)) = dispatched w @ [rq]"
  shows "\<exists>msgs. deref (heap w) r = Some (MessageList msgs) \<and> rq = chat_request msgs t n"
proof (cases "\<exists>msgs. deref (heap w) r = Some (MessageList msgs)")
  case False
  then show ?thesis using assms by (simp add: execute_not_a_conversation)
next
  case True
  then obtain msgs where d: "deref (heap w) r = Some (MessageList msgs)" by blast
  show ?thesis
    using execute_dispatched_cases [OF d, of L self t n] assms d by auto
qed

lemma execute_miss_heap:
  assumes "deref (heap w) r = Some (MessageList msgs)" and "cached (cache w) msgs = None"
    and "msgs \<noteq> []"
  shows "\<exists>ys. heap (snd (execute L self w r t n)) = heap w @ [DictList (outgoing msgs @ ys)]"
proof -
  have "\<exists>ys. heap (snd (handle_response
              (w\<lparr>heap := heap w @ [DictList (outgoing msgs)],
                 dispatched := dispatched w @ [chat_request msgs t n]\<rparr>)
              msgs (find_system_message msgs) (length (heap w)) resp)) =
            heap w @ [DictList (outgoing msgs @ ys)]" for resp
    by (rule handle_response_heap_grows) simp
  then show ?thesis
    by (simp add: execute_miss [OF assms] split: sum.splits)
qed

lemma execute_old_heap: "\<exists>new. heap (snd (execute L self w r t n)) = heap w @ new"
proof (cases "\<exists>msgs. deref (heap w) r = Some (MessageList msgs)")
  case False
  then show ?thesis by (simp add: execute_not_a_conversation)
next
  case True
  then obtain msgs where d: "deref (heap w) r = Some (MessageList msgs)" by blast
  show ?thesis
  proof (cases "cached (cache w) msgs")
    case (Some a)
    then show ?thesis using d by (simp add: execute_hit)
  next
    case None
    show ?thesis
    proof (cases "msgs = []")
      case True
      then show ?thesis using d None by (simp add: execute_empty)
    next
      case False
      then show ?thesis using execute_miss_heap [OF d None False, of L self t n] by auto
    qed
  qed
qed

lemma execute_deref_old:
  "deref (heap (snd (execute L self w r t n))) r = deref (heap w) r"
proof -
  obtain new where new: "heap (snd (execute L self w r t n)) = heap w @ new"
    using execute_old_heap by blast
  show ?thesis
  proof (cases "r < length (heap w)")
    case True
    then show ?thesis by (simp add: new deref_def nth_append)
  next
    case False
    then have "deref (heap w) r = None" by (simp add: deref_def)
    then have "execute L self w r t n = (Inl TypeError, w)"
      by (simp add: execute_not_a_conversation)
    then show ?thesis by simp
  qed
qed

lemma execute_model_only:
  assumes "model self1 = model self2"
  shows "execute L self1 w r t n = execute L self2 w r t n"
  unfolding execute_def execute_direct_def calculate_tokens_def max_prompt_tokens_def
    max_tokens_def assms
  by (rule refl)

text \<open>The definitions a run on a concrete input unfolds.\<close>

lemmas run =
  execute_def deref_def cached_def has_key_def get_def find_system_message_def last_pred_def
  build_messages_list_def alloc_def append_at_def to_dict_def dicts_at_def execute_direct_def
  calculate_tokens_def max_prompt_tokens_def max_tokens_def create_def handle_response_def
  len_dict_def first_choice_message_def from_dict_def store_def set_cache_def
  default_functions_def default_model_def Let_def

section \<open>The token budget and the token counter\<close>

text \<open>
  C7. For every model identifier and every reserved completion-token count,
  \<open>max_prompt_tokens\<close> is \<open>max_tokens\<close> of the model minus the reserved count minus
  256, and \<open>max_tokens\<close> is 16385 for the two gpt-3.5-turbo-16k identifiers and 4096 for
  every other identifier.
\<close>

theorem budget_table:
  "max_prompt_tokens self completion_token_count = max_tokens self - completion_token_count - 256
   \<and> max_tokens self =
       (if model self = ''gpt-3.5-turbo-16k-0613'' \<or> model self = ''gpt-3.5-turbo-16k''
        then 16385 else 4096)"
  by (simp add: max_prompt_tokens_def max_tokens_def)

text \<open>
  C8. The claim is that the extra text is counted for every shape of input. For a
  non-empty list of dictionaries it is not: the count is the one without extra text,
  whatever the encoding and the serialisation are. With the stand-in libraries, the extra
  text \<^verbatim>\<open>'more'\<close> adds nothing to the 17 tokens of the dictionary of a message, while
  it is counted for the same message as a \<^verbatim>\<open>Message\<close> and for a string.
\<close>

theorem calculate_tokens_dicts_ignores_extra_str:
  "calculate_tokens L self (Dicts (d # ds)) extra_str = calculate_tokens L self (Dicts (d # ds)) []
   \<and> calculate_tokens example_libs example_self (Dicts [to_dict (User (Content ''hi''))]) ''more'' = Inr 17
   \<and> calculate_tokens example_libs example_self (Dicts [to_dict (User (Content ''hi''))]) [] = Inr 17
   \<and> calculate_tokens example_libs example_self (Messages [User (Content ''hi'')]) ''more'' = Inr 36
   \<and> calculate_tokens example_libs example_self (Messages [User (Content ''hi'')]) [] = Inr 32
   \<and> calculate_tokens example_libs example_self (Text ''hi'') ''more'' = Inr 6
   \<and> calculate_tokens example_libs example_self (Text ''hi'') [] = Inr 2"
  by (simp add: calculate_tokens_def example_libs_def example_self_def to_dict_def
      split: option.splits)

section \<open>Validation and dispatch in execute_direct\<close>

text \<open>
  C2. Whenever the measured token count of the messages plus the requested
  completion-token count plus 256 exceeds \<open>max_tokens\<close> of the model, \<open>execute_direct\<close>
  raises \<open>PromptTooLong\<close> with the measured count, the requested count, their sum and
  the model's budget, and the world, so the log of remote calls, is as before: for every
  list of functions, model argument, temperature and format.
\<close>

theorem execute_direct_prompt_too_long:
  assumes "calculate_tokens L self (Dicts messages) [] = Inr message_tokens"
    and "message_tokens + max_completion_tokens + 256 > max_tokens self"
  shows "execute_direct L self w messages functions mdl max_completion_tokens temperature chat_format =
           (Inl (PromptTooLong message_tokens max_completion_tokens
                   (message_tokens + max_completion_tokens) (max_tokens self)), w)
         \<and> dispatched (snd (execute_direct L self w messages functions mdl max_completion_tokens
               temperature chat_format)) = dispatched w"
  using assms by (simp add: execute_direct_def max_prompt_tokens_def)

theorem execute_direct_prompt_too_long_witness:
  "calculate_tokens example_libs example_self (Dicts [to_dict (User (Content ''hi''))]) [] = Inr 17
   \<and> (17::int) + 20000 + 256 > max_tokens example_self
   \<and> execute_direct example_libs example_self example_world [to_dict (User (Content ''hi''))] []
        ''gpt-4'' 20000 0.2 True = (Inl (PromptTooLong 17 20000 20017 16385), example_world)"
proof -
  have h1: "calculate_tokens example_libs example_self (Dicts [to_dict (User (Content ''hi''))]) [] = Inr 17"
    by (simp add: calculate_tokens_def example_libs_def example_self_def to_dict_def)
  have h2: "(17::int) + 20000 + 256 > max_tokens example_self"
    by (simp add: max_tokens_def example_self_def)
  have h3: "max_tokens example_self = 16385"
    by (simp add: max_tokens_def example_self_def)
  show ?thesis
    using h1 h2 h3
      execute_direct_prompt_too_long [OF h1 h2, of example_world "[]" "''gpt-4''" "0.2" True]
    by simp
qed

text \<open>
  C5. A call of \<open>execute_direct\<close> in the non-chat format with a non-empty list of
  functions, whose messages fit the token budget, raises \<open>UnsupportedFormat\<close> and leaves
  the world, so the log of remote calls, as it was.
\<close>

theorem execute_direct_unsupported_format:
  assumes "calculate_tokens L self (Dicts messages) [] = Inr message_tokens"
    and "message_tokens \<le> max_prompt_tokens self max_completion_tokens"
    and "functions \<noteq> []"
  shows "execute_direct L self w messages functions mdl max_completion_tokens temperature False =
           (Inl UnsupportedFormat, w)
         \<and> dispatched (snd (execute_direct L self w messages functions mdl max_completion_tokens
               temperature False)) = dispatched w"
  using assms by (simp add: execute_direct_def)

theorem execute_direct_unsupported_format_witness:
  "calculate_tokens example_libs example_self (Dicts [to_dict (User (Content ''hi''))]) [] = Inr 17
   \<and> (17::int) \<le> max_prompt_tokens example_self 1024
   \<and> execute_direct example_libs example_self example_world [to_dict (User (Content ''hi''))]
        [[(''name'', PStr ''search'')]] ''gpt-4'' 1024 0.2 False =
       (Inl UnsupportedFormat, example_world)"
proof -
  have h1: "calculate_tokens example_libs example_self (Dicts [to_dict (User (Content ''hi''))]) [] = Inr 17"
    by (simp add: calculate_tokens_def example_libs_def example_self_def to_dict_def)
  have h2: "(17::int) \<le> max_prompt_tokens example_self 1024"
    by (simp add: max_prompt_tokens_def max_tokens_def example_self_def)
  have h3: "[[(''name'', PStr ''search'')]] \<noteq> ([] :: dict list)"
    by simp
  show ?thesis
    using h1 h2
      execute_direct_unsupported_format [OF h1 h2 h3, of example_world "''gpt-4''" "0.2"]
    by simp
qed

text \<open>
  C6. A chat-format call of \<open>execute_direct\<close> that passes validation dispatches exactly
  one request, and that request has the functions field if and only if the list of
  functions is non-empty: an empty list is left out of the request, not sent as an empty
  collection.
\<close>

theorem execute_direct_functions_field:
  assumes "calculate_tokens L self (Dicts messages) [] = Inr message_tokens"
    and "message_tokens \<le> max_prompt_tokens self max_completion_tokens"
  shows "dispatched (snd (execute_direct L self w messages functions mdl max_completion_tokens
               temperature True)) =
           dispatched w @
             [\<lparr>rq_endpoint = ChatCompletion, rq_model = mdl, rq_temperature = temperature,
               rq_max_tokens = max_completion_tokens,
               rq_functions = (if functions = [] then None else Some functions),
               rq_messages = messages\<rparr>]"
  using assms by (simp add: execute_direct_def create_def)

theorem execute_direct_functions_field_witness:
  "calculate_tokens example_libs example_self (Dicts [to_dict (User (Content ''hi''))]) [] = Inr 17
   \<and> (17::int) \<le> max_prompt_tokens example_self 1024
   \<and> map rq_functions (dispatched (snd (execute_direct example_libs example_self example_world
        [to_dict (User (Content ''hi''))] [] ''gpt-4'' 1024 0.2 True))) = [None]
   \<and> map rq_functions (dispatched (snd (execute_direct example_libs example_self example_world
        [to_dict (User (Content ''hi''))] [[(''name'', PStr ''search'')]] ''gpt-4'' 1024 0.2 True))) =
       [Some [[(''name'', PStr ''search'')]]]"
proof -
  have h1: "calculate_tokens example_libs example_self (Dicts [to_dict (User (Content ''hi''))]) [] = Inr 17"
    by (simp add: calculate_tokens_def example_libs_def example_self_def to_dict_def)
  have h2: "(17::int) \<le> max_prompt_tokens example_self 1024"
    by (simp add: max_prompt_tokens_def max_tokens_def example_self_def)
  have e: "dispatched example_world = []"
    by (simp add: example_world_def)
  show ?thesis
    using h1 h2 e
      execute_direct_functions_field [OF h1 h2, of example_world "[]" "''gpt-4''" "0.2"]
      execute_direct_functions_field [OF h1 h2, of example_world "[[(''name'', PStr ''search'')]]"
        "''gpt-4''" "0.2"]
    by simp
qed

section \<open>The request execute builds\<close>

text \<open>
  C1. The claim is that on the cache-miss path every conversation gets a list for the
  request with exactly one system message, at position 0, the default one when the
  conversation has none. The empty conversation has no system message and gets no list:
  on a miss of the cache, \<^verbatim>\<open>messages[-1]\<close> in the \<^verbatim>\<open>logging.debug\<close> of line 130 raises
  \<open>IndexError\<close>, for every executor, library, temperature and completion budget, and
  the world is as before: no list is allocated and nothing is dispatched.
\<close>

theorem execute_empty_conversation_raises:
  "execute L self empty_conversation_world 0 temperature n = (Inl IndexError, empty_conversation_world)
   \<and> deref (heap empty_conversation_world) 0 = Some (MessageList [])
   \<and> cached (cache empty_conversation_world) [] = None
   \<and> filter (\<lambda>m. role m = ''system'') ([] :: message list) = []"
  by (simp add: execute_def empty_conversation_world_def deref_def cached_def has_key_def)

text \<open>
  X1. On the cache-miss path of \<open>execute\<close>, for every non-empty conversation the list
  for the request has exactly one system message, at position 0: the last system message
  of the conversation when it has one, the default \<^verbatim>\<open>'You are a helpful assistant.'\<close>
  otherwise, followed by the messages that are no system messages in their order. It is
  what the fresh list object holds when \<open>execute\<close> ends, before the message of a
  response, and it is the message list of the request when one is dispatched.
\<close>

theorem execute_outgoing_system_first:
  assumes "deref (heap w) messages = Some (MessageList msgs)"
    and "cached (cache w) msgs = None"
    and "msgs \<noteq> []"
  shows "\<exists>system_message out.
           system_message =
             (if filter (\<lambda>m. role m = ''system'') msgs = []
              then System (Content ''You are a helpful assistant.'')
              else last (filter (\<lambda>m. role m = ''system'') msgs))
         \<and> out = to_dict system_message # map to_dict (filter (\<lambda>m. role m \<noteq> ''system'') msgs)
         \<and> take (length out)
               (dicts_at (heap (snd (execute L self w messages temperature n))) (length (heap w))) = out
         \<and> (dispatched (snd (execute L self w messages temperature n)) = dispatched w
              \<or> (\<exists>rq. dispatched (snd (execute L self w messages temperature n)) = dispatched w @ [rq]
                    \<and> rq_messages rq = out))
         \<and> length (filter (\<lambda>d. getitem (PDict d) ''role'' = Inr (PStr ''system'')) out) = 1
         \<and> getitem (PDict (out ! 0)) ''role'' = Inr (PStr ''system'')"
proof -
  let ?out = "outgoing msgs"
  obtain ys where h: "heap (snd (execute L self w messages temperature n)) =
      heap w @ [DictList (?out @ ys)]"
    using execute_miss_heap [OF assms] by blast
  have built: "take (length ?out)
      (dicts_at (heap (snd (execute L self w messages temperature n))) (length (heap w))) = ?out"
    by (simp add: h dicts_at_fresh)
  have sent: "dispatched (snd (execute L self w messages temperature n)) = dispatched w
      \<or> (\<exists>rq. dispatched (snd (execute L self w messages temperature n)) = dispatched w @ [rq]
            \<and> rq_messages rq = ?out)"
    using execute_dispatched_cases [OF assms(1), of L self temperature n] by auto
  have one: "length (filter (\<lambda>d. getitem (PDict d) ''role'' = Inr (PStr ''system'')) ?out) = 1"
    by (simp add: map_of_role_to_dict role_find_system_message no_system_among_others)
  have first: "getitem (PDict (?out ! 0)) ''role'' = Inr (PStr ''system'')"
    by (simp add: map_of_role_to_dict role_find_system_message)
  show ?thesis
    using built sent one first find_system_message_eq [of msgs]
    by (intro exI [of _ "find_system_message msgs"] exI [of _ ?out]) simp
qed

text \<open>A conversation with two system messages: the second one leads the request, the
  first one is dropped.\<close>

theorem execute_outgoing_system_first_witness:
  "deref (heap two_systems_world) 0 =
     Some (MessageList [System (Content ''A''), User (Content ''q''), System (Content ''B''),
                        User (Content ''r'')])
   \<and> cached (cache two_systems_world)
        [System (Content ''A''), User (Content ''q''), System (Content ''B''), User (Content ''r'')] = None
   \<and> map rq_messages (dispatched (snd (execute example_libs example_self two_systems_world 0 0.2 2048))) =
        [[to_dict (System (Content ''B'')), to_dict (User (Content ''q'')), to_dict (User (Content ''r''))]]
   \<and> (\<exists>system_message out.
           system_message =
             (if filter (\<lambda>m. role m = ''system'')
                   [System (Content ''A''), User (Content ''q''), System (Content ''B''),
                    User (Content ''r'')] = []
              then System (Content ''You are a helpful assistant.'')
              else last (filter (\<lambda>m. role m = ''system'')
                   [System (Content ''A''), User (Content ''q''), System (Content ''B''),
                    User (Content ''r'')]))
         \<and> out = to_dict system_message # map to_dict (filter (\<lambda>m. role m \<noteq> ''system'')
                   [System (Content ''A''), User (Content ''q''), System (Content ''B''),
                    User (Content ''r'')])
         \<and> take (length out)
               (dicts_at (heap (snd (execute example_libs example_self two_systems_world 0 0.2 2048)))
                  (length (heap two_systems_world))) = out
         \<and> length (filter (\<lambda>d. getitem (PDict d) ''role'' = Inr (PStr ''system'')) out) = 1
         \<and> getitem (PDict (out ! 0)) ''role'' = Inr (PStr ''system''))"
proof -
  let ?msgs = "[System (Content ''A''), User (Content ''q''), System (Content ''B''), User (Content ''r'')]"
  have h1: "deref (heap two_systems_world) 0 = Some (MessageList ?msgs)"
    by (simp add: two_systems_world_def deref_def)
  have h2: "cached (cache two_systems_world) ?msgs = None"
    by (simp add: two_systems_world_def cached_def has_key_def)
  have h3: "?msgs \<noteq> []"
    by simp
  have d: "map rq_messages (dispatched (snd (execute example_libs example_self two_systems_world 0 0.2 2048))) =
        [[to_dict (System (Content ''B'')), to_dict (User (Content ''q'')), to_dict (User (Content ''r''))]]"
    by (simp add: run two_systems_world_def example_libs_def example_self_def)
  show ?thesis
    using h1 h2 d execute_outgoing_system_first [OF h1 h2 h3, of example_libs example_self "0.2" 2048]
    by blast
qed

text \<open>
  C10. Every request \<open>execute\<close> dispatches names the model \<^verbatim>\<open>'gpt-3.5-turbo-16k-0613'\<close>,
  the default of the parameter of \<open>execute_direct\<close>, whatever model the executor is
  configured with: two executors (with any libraries) that both dispatch for the same
  conversation, temperature and completion budget dispatch the same request. The
  configured model is all of the executor that \<open>execute\<close> reads: executors with the same
  model give the same result and the same world.
\<close>

theorem execute_dispatches_default_model:
  assumes "dispatched (snd (execute L1 self1 w messages temperature n)) = dispatched w @ [rq1]"
    and "dispatched (snd (execute L2 self2 w messages temperature n)) = dispatched w @ [rq2]"
    and "model self3 = model self1"
  shows "rq_model rq1 = ''gpt-3.5-turbo-16k-0613''
       \<and> rq2 = rq1
       \<and> execute L1 self3 w messages temperature n = execute L1 self1 w messages temperature n"
proof -
  obtain msgs1 where m1: "deref (heap w) messages = Some (MessageList msgs1)"
    "rq1 = chat_request msgs1 temperature n"
    using execute_dispatched_request [OF assms(1)] by blast
  obtain msgs2 where m2: "deref (heap w) messages = Some (MessageList msgs2)"
    "rq2 = chat_request msgs2 temperature n"
    using execute_dispatched_request [OF assms(2)] by blast
  show ?thesis
    using m1 m2 execute_model_only [OF assms(3), of L1 w messages temperature n]
    by (simp add: default_model_def)
qed

text \<open>The executors for \<^verbatim>\<open>'gpt-3.5-turbo-16k-0613'\<close> and for \<^verbatim>\<open>'gpt-4'\<close> dispatch the
  same request, which names the first model; with a completion budget of 8000 tokens the
  validation, which does read the configured model, lets only the first one through.\<close>

theorem execute_dispatches_default_model_witness:
  "model example_self \<noteq> model gpt4_self
   \<and> dispatched (snd (execute example_libs example_self example_world 0 0.2 2048)) =
       dispatched example_world @
        [\<lparr>rq_endpoint = ChatCompletion, rq_model = ''gpt-3.5-turbo-16k-0613'', rq_temperature = 0.2,
          rq_max_tokens = 2048, rq_functions = None,
          rq_messages = [to_dict (System (Content ''You are a helpful assistant.'')),
                         to_dict (User (Content ''What is 2+2?''))]\<rparr>]
   \<and> dispatched (snd (execute example_libs gpt4_self example_world 0 0.2 2048)) =
       dispatched (snd (execute example_libs example_self example_world 0 0.2 2048))
   \<and> length (dispatched (snd (execute example_libs example_self example_world 0 0.2 8000))) = 1
   \<and> fst (execute example_libs gpt4_self example_world 0 0.2 8000) =
       Inl (PromptTooLong 72 8000 8072 4096)"
proof -
  let ?rq = "\<lparr>rq_endpoint = ChatCompletion, rq_model = ''gpt-3.5-turbo-16k-0613'', rq_temperature = 0.2,
          rq_max_tokens = 2048, rq_functions = None,
          rq_messages = [to_dict (System (Content ''You are a helpful assistant.'')),
                         to_dict (User (Content ''What is 2+2?''))]\<rparr>"
  have h0: "model example_self \<noteq> model gpt4_self"
    by (simp add: gpt4_self_def example_self_def)
  have h1: "dispatched (snd (execute example_libs example_self example_world 0 0.2 2048)) =
       dispatched example_world @ [?rq]"
    by (simp add: run example_world_def example_libs_def example_self_def)
  obtain rq2 where h2: "dispatched (snd (execute example_libs gpt4_self example_world 0 0.2 2048)) =
       dispatched example_world @ [rq2]"
    by (simp add: run example_world_def example_libs_def example_self_def gpt4_self_def)
  have h3: "model example_self = model example_self" by simp
  have b1: "length (dispatched (snd (execute example_libs example_self example_world 0 0.2 8000))) = 1"
    by (simp add: run example_world_def example_libs_def example_self_def)
  have b2: "fst (execute example_libs gpt4_self example_world 0 0.2 8000) =
       Inl (PromptTooLong 72 8000 8072 4096)"
    by (simp add: run example_world_def example_libs_def example_self_def gpt4_self_def)
  show ?thesis
    using h0 h1 h2 b1 b2 execute_dispatches_default_model [OF h1 h2 h3]
    by simp
qed

section \<open>The degraded response\<close>

text \<open>
  C3. The claim is that a response with zero choices gives the degraded Assistant and no
  exception. The test of line 147 is \<^verbatim>\<open>len(chat_response) == 0\<close>, on the response
  object and not on its choices: a response with a field \<^verbatim>\<open>id\<close> and an empty list of
  choices, the answer to the request dispatched for the conversation of the spec's
  example, is not empty, so line 155 runs and \<^verbatim>\<open>chat_response['choices'][0]\<close> raises
  \<open>IndexError\<close>.
\<close>

theorem execute_zero_choices_raises:
  "dispatched (snd (execute zero_choices_libs example_self example_world 0 0.2 2048)) =
     [\<lparr>rq_endpoint = ChatCompletion, rq_model = ''gpt-3.5-turbo-16k-0613'', rq_temperature = 0.2,
       rq_max_tokens = 2048, rq_functions = None,
       rq_messages = [to_dict (System (Content ''You are a helpful assistant.'')),
                      to_dict (User (Content ''What is 2+2?''))]\<rparr>]
   \<and> remote zero_choices_libs []
       \<lparr>rq_endpoint = ChatCompletion, rq_model = ''gpt-3.5-turbo-16k-0613'', rq_temperature = 0.2,
        rq_max_tokens = 2048, rq_functions = None,
        rq_messages = [to_dict (System (Content ''You are a helpful assistant.'')),
                       to_dict (User (Content ''What is 2+2?''))]\<rparr> =
       Inr [(''id'', PStr ''x''), (''choices'', PList [])]
   \<and> getitem (PDict [(''id'', PStr ''x''), (''choices'', PList [])]) ''choices'' = Inr (PList [])
   \<and> fst (execute zero_choices_libs example_self example_world 0 0.2 2048) = Inl IndexError"
  by (simp add: run zero_choices_libs_def example_world_def example_libs_def example_self_def)

text \<open>
  X2. What the test of line 147 does catch: on the cache-miss path, when the response
  object of the dispatched request is empty (it has no field at all), \<open>execute\<close> returns
  an Assistant with the error flag set, the content
  \<^verbatim>\<open>'The model could not execute the query.'\<close>, the system message as its system
  reference, and as its context the messages of the whole list of the request, the system
  message first; the cache is as before.
\<close>

theorem execute_empty_response_degraded:
  assumes "deref (heap w) messages = Some (MessageList msgs)"
    and "cached (cache w) msgs = None"
    and "dispatched (snd (execute L self w messages temperature n)) = dispatched w @ [rq]"
    and "remote L (dispatched w) rq = Inr response"
    and "len_dict response = 0"
  shows "\<exists>ctx. fst (execute L self w messages temperature n) =
             Inr (Assistant (Content ''The model could not execute the query.'') True ctx
                    (Some (find_system_message msgs)))
         \<and> comprehension from_dict (rq_messages rq) = Inr ctx
         \<and> map to_dict ctx = rq_messages rq
         \<and> rq_messages rq =
             to_dict (find_system_message msgs) #
             map to_dict (filter (\<lambda>m. role m \<noteq> ''system'') msgs)
         \<and> cache (snd (execute L self w messages temperature n)) = cache w"
proof -
  let ?rq = "chat_request msgs temperature n"
  let ?w1 = "w\<lparr>heap := heap w @ [DictList (outgoing msgs)]\<rparr>"
  let ?w2 = "w\<lparr>heap := heap w @ [DictList (outgoing msgs)], dispatched := dispatched w @ [?rq]\<rparr>"
  have rq: "rq = ?rq" and ne: "msgs \<noteq> []"
    using execute_dispatched_cases [OF assms(1), of L self temperature n] assms(3) by auto
  have m: "execute L self w messages temperature n =
     (case calculate_tokens L self (Dicts (outgoing msgs)) [] of
        Inl e \<Rightarrow> (Inl e, ?w1)
      | Inr k \<Rightarrow>
          if k > max_prompt_tokens self n
          then (Inl (PromptTooLong k n (k + n) (max_tokens self)), ?w1)
          else handle_response ?w2 msgs (find_system_message msgs) (length (heap w)) response)"
    using assms(4) by (simp add: execute_miss [OF assms(1,2) ne] rq split: sum.splits)
  have run: "execute L self w messages temperature n =
      handle_response ?w2 msgs (find_system_message msgs) (length (heap w)) response"
    using assms(3) unfolding m by (simp split: sum.splits if_splits)
  have at: "dicts_at (heap ?w2) (length (heap w)) =
      map to_dict (find_system_message msgs # filter (\<lambda>m. role m \<noteq> ''system'') msgs)"
    by (simp add: dicts_at_fresh)
  obtain ctx where ctx:
    "handle_response ?w2 msgs (find_system_message msgs) (length (heap w)) response =
       (Inr (Assistant (Content ''The model could not execute the query.'') True ctx
          (Some (find_system_message msgs))), ?w2)"
    "comprehension from_dict
       (map to_dict (find_system_message msgs # filter (\<lambda>m. role m \<noteq> ''system'') msgs)) = Inr ctx"
    "map to_dict ctx =
       map to_dict (find_system_message msgs # filter (\<lambda>m. role m \<noteq> ''system'') msgs)"
    using handle_response_empty [OF assms(5) at] by blast
  show ?thesis
    using ctx by (intro exI [of _ ctx]) (simp add: run rq)
qed

theorem execute_empty_response_degraded_witness:
  "deref (heap example_world) 0 = Some (MessageList [User (Content ''What is 2+2?'')])
   \<and> cached (cache example_world) [User (Content ''What is 2+2?'')] = None
   \<and> dispatched (snd (execute empty_response_libs example_self example_world 0 0.2 2048)) =
       dispatched example_world @
        [\<lparr>rq_endpoint = ChatCompletion, rq_model = ''gpt-3.5-turbo-16k-0613'', rq_temperature = 0.2,
          rq_max_tokens = 2048, rq_functions = None,
          rq_messages = [to_dict (System (Content ''You are a helpful assistant.'')),
                         to_dict (User (Content ''What is 2+2?''))]\<rparr>]
   \<and> len_dict [] = 0
   \<and> fst (execute empty_response_libs example_self example_world 0 0.2 2048) =
       Inr (Assistant (Content ''The model could not execute the query.'') True
             [System (Content ''You are a helpful assistant.''), User (Content ''What is 2+2?'')]
             (Some (System (Content ''You are a helpful assistant.''))))
   \<and> cache (snd (execute empty_response_libs example_self example_world 0 0.2 2048)) =
       cache example_world"
proof -
  let ?rq = "\<lparr>rq_endpoint = ChatCompletion, rq_model = ''gpt-3.5-turbo-16k-0613'', rq_temperature = 0.2,
          rq_max_tokens = 2048, rq_functions = None,
          rq_messages = [to_dict (System (Content ''You are a helpful assistant.'')),
                         to_dict (User (Content ''What is 2+2?''))]\<rparr>"
  have h1: "deref (heap example_world) 0 = Some (MessageList [User (Content ''What is 2+2?'')])"
    by (simp add: example_world_def deref_def)
  have h2: "cached (cache example_world) [User (Content ''What is 2+2?'')] = None"
    by (simp add: example_world_def cached_def has_key_def)
  have h3: "dispatched (snd (execute empty_response_libs example_self example_world 0 0.2 2048)) =
       dispatched example_world @ [?rq]"
    by (simp add: run empty_response_libs_def example_world_def example_libs_def example_self_def)
  have h4: "remote empty_response_libs (dispatched example_world) ?rq = Inr []"
    by (simp add: empty_response_libs_def)
  have h5: "len_dict [] = 0"
    by (simp add: len_dict_def)
  have s: "find_system_message [User (Content ''What is 2+2?'')] =
      System (Content ''You are a helpful assistant.'')"
    by (simp add: find_system_message_def last_pred_def)
  have c: "comprehension from_dict (rq_messages ?rq) =
      Inr [System (Content ''You are a helpful assistant.''), User (Content ''What is 2+2?'')]"
    by (simp add: from_dict_def to_dict_def)
  show ?thesis
    using h1 h2 h3 h5 execute_empty_response_degraded [OF h1 h2 h3 h4 h5] s c
    by auto
qed

section \<open>The caller's list and the cache\<close>

text \<open>
  C9. \<open>execute\<close> never changes the caller's list: whatever the call returns (an
  Assistant, the degraded Assistant or an exception), the address of the conversation
  holds after the call what it held before, and so does every address that was in use
  before the call; the list \<open>execute\<close> fills is a new object.
\<close>

theorem execute_keeps_callers_list:
  "deref (heap (snd (execute L self w messages temperature n))) messages = deref (heap w) messages
   \<and> take (length (heap w)) (heap (snd (execute L self w messages temperature n))) = heap w"
proof -
  obtain new where new: "heap (snd (execute L self w messages temperature n)) = heap w @ new"
    using execute_old_heap by blast
  have t: "take (length (heap w)) (heap (snd (execute L self w messages temperature n))) = heap w"
    by (simp add: new)
  show ?thesis
    using t execute_deref_old [of L self w messages temperature n] by simp
qed

text \<open>
  C4. With a cache that does not hold the conversation yet, a first call of \<open>execute\<close>
  that succeeds (it returns an Assistant without the error flag) dispatches exactly one
  request and stores its result under the caller's conversation. A second call on the same
  conversation, at the same or another address, then returns the stored Assistant, equal
  to the first result, and leaves the world as it is: nothing is dispatched, and neither
  the libraries nor the executor, the temperature or the completion budget of the second
  call matter, so nothing is counted.
\<close>

theorem execute_twice_one_dispatch:
  assumes "deref (heap w) messages = Some (MessageList msgs)"
    and "cache w = Some c" and "c msgs = None"
    and "execute L self w messages temperature n = (Inr (Assistant a False ctx sc), w1)"
    and "deref (heap w1) messages' = Some (MessageList msgs)"
  shows "(\<exists>rq. dispatched w1 = dispatched w @ [rq])
       \<and> cache w1 = Some (c(msgs \<mapsto> Assistant a False ctx sc))
       \<and> deref (heap w1) messages = Some (MessageList msgs)
       \<and> execute L' self' w1 messages' temperature' n' = (Inr (Assistant a False ctx sc), w1)"
proof -
  have miss: "cached (cache w) msgs = None"
    using assms(2,3) by (simp add: cached_def has_key_def)
  have ne: "msgs \<noteq> []"
    using execute_empty [of w messages L self temperature n] assms(1,4) miss by auto
  let ?w2 = "w\<lparr>heap := heap w @ [DictList (outgoing msgs)],
                dispatched := dispatched w @ [chat_request msgs temperature n]\<rparr>"
  obtain resp where h: "handle_response ?w2 msgs (find_system_message msgs) (length (heap w)) resp =
      (Inr (Assistant a False ctx sc), w1)"
    using assms(4) unfolding execute_miss [OF assms(1) miss ne]
    by (auto split: sum.splits if_splits)
  have c1: "cache w1 = Some (c(msgs \<mapsto> Assistant a False ctx sc))"
    using handle_response_success [OF h] assms(2) by simp
  have d1: "dispatched w1 = dispatched w @ [chat_request msgs temperature n]"
    using handle_response_dispatched [of ?w2 msgs "find_system_message msgs" "length (heap w)" resp] h
    by simp
  have k: "deref (heap w1) messages = Some (MessageList msgs)"
    using execute_deref_old [of L self w messages temperature n] assms(1,4) by simp
  have hit: "cached (cache w1) msgs = Some (Assistant a False ctx sc)"
    by (simp add: c1 cached_def has_key_def get_def)
  show ?thesis
    using c1 d1 k execute_hit [OF assms(5) hit] by simp
qed

text \<open>The example of the spec: the second call, here with another executor, other
  parameters and a remote service that would make the first call fail, returns what the
  first call returned and changes nothing.\<close>

theorem execute_twice_one_dispatch_witness:
  "deref (heap example_world) 0 = Some (MessageList [User (Content ''What is 2+2?'')])
   \<and> cache example_world = Some Map.empty
   \<and> fst (execute example_libs example_self example_world 0 0.2 2048) =
       Inr (Assistant (Content ''4'') False
             [System (Content ''You are a helpful assistant.''), User (Content ''What is 2+2?''),
              Assistant (Content ''4'') False [] None] None)
   \<and> length (dispatched (snd (execute example_libs example_self example_world 0 0.2 2048))) = 1
   \<and> execute zero_choices_libs gpt4_self
        (snd (execute example_libs example_self example_world 0 0.2 2048)) 0 0.7 16 =
       execute example_libs example_self example_world 0 0.2 2048"
proof -
  let ?a = "Assistant (Content ''4'') False
             [System (Content ''You are a helpful assistant.''), User (Content ''What is 2+2?''),
              Assistant (Content ''4'') False [] None] None"
  let ?w1 = "snd (execute example_libs example_self example_world 0 0.2 2048)"
  have h1: "deref (heap example_world) 0 = Some (MessageList [User (Content ''What is 2+2?'')])"
    by (simp add: example_world_def deref_def)
  have h2: "cache example_world = Some Map.empty"
    by (simp add: example_world_def)
  have h3: "Map.empty [User (Content ''What is 2+2?'')] = (None :: message option)"
    by simp
  have f: "fst (execute example_libs example_self example_world 0 0.2 2048) = Inr ?a"
    by (simp add: run example_world_def example_libs_def example_self_def)
  have h4: "execute example_libs example_self example_world 0 0.2 2048 = (Inr ?a, ?w1)"
    using f by (simp add: prod_eq_iff)
  have h5: "deref (heap ?w1) 0 = Some (MessageList [User (Content ''What is 2+2?'')])"
    by (simp add: run example_world_def example_libs_def example_self_def)
  have e: "dispatched example_world = []"
    by (simp add: example_world_def)
  show ?thesis
    using h1 h2 f h4 e
      execute_twice_one_dispatch [OF h1 h2 h3 h4 h5, of zero_choices_libs gpt4_self "0.7" 16]
    by auto
qed

end
